theory Spec2Isabelle
  imports Main
begin

section \<open>The AWD reader of pyActigraphy (\<^verbatim>\<open>pyActigraphy/io/awd/awd.py\<close>)\<close>

text \<open>
  The reader is embedded as HOL functions. A text line is a \<^typ>\<open>string\<close>, a file is the
  list of its lines as Python's file iterator yields them (each line with its terminator).
  An exception is a value of \<open>error\<close>; \<^verbatim>\<open>print\<close> and \<^verbatim>\<open>warnings.warn\<close> are collected
  in a list of \<open>message\<close>s, so that a computation is a pair of what it has written and of
  its error or value.
\<close>

subsection \<open>Exceptions and output\<close>

datatype error =
    StopIteration          \<comment> \<open>\<^verbatim>\<open>next(f)\<close> on an exhausted file\<close>
  | IndexError             \<comment> \<open>a list or an index read out of range\<close>
  | KeyError               \<comment> \<open>a dictionary read at a missing key\<close>
  | AttributeError         \<comment> \<open>an attribute read that was never set\<close>
  | ValueError_int         \<comment> \<open>\<^verbatim>\<open>int(...)\<close> on a string that is no integer literal\<close>
  | ValueError_frequency   \<comment> \<open>the \<^verbatim>\<open>raise ValueError\<close> of \<^verbatim>\<open>__init__\<close>\<close>
  | ValueError_datetime    \<comment> \<open>\<^verbatim>\<open>pd.to_datetime\<close> on a string that is no date\<close>
  | ValueError_offset      \<comment> \<open>\<^verbatim>\<open>pd.date_range\<close> on an invalid \<^verbatim>\<open>freq\<close>\<close>
  | ValueError_timedelta   \<comment> \<open>\<^verbatim>\<open>pd.Timedelta\<close> on a string that is no duration\<close>

datatype message = Print string | Warn string

type_synonym 'a res = "message list \<times> (error + 'a)"

definition ret :: "'a \<Rightarrow> 'a res" where
  "ret x = ([], Inr x)"

definition raise :: "error \<Rightarrow> 'a res" where
  "raise e = ([], Inl e)"

definition emit :: "message \<Rightarrow> unit res" where
  "emit out = ([out], Inr ())"

definition bind :: "'a res \<Rightarrow> ('a \<Rightarrow> 'b res) \<Rightarrow> 'b res" where
  "bind m f =
     (case m of
        (w, Inl e) \<Rightarrow> (w, Inl e)
      | (w, Inr x) \<Rightarrow> (case f x of (w', r) \<Rightarrow> (w @ w', r)))"

subsection \<open>Python's strings\<close>

text \<open>
  The characters are those of ASCII; a character beyond ASCII is outside the model.
  \<open>NL\<close> is the line terminator \<^verbatim>\<open>'\n'\<close>.
\<close>

definition NL :: char where
  "NL = CHR 0x0A"

definition whitespace :: "char list" where
  "whitespace =
     [CHR 0x09, CHR 0x0A, CHR 0x0B, CHR 0x0C, CHR 0x0D,
      CHR 0x1C, CHR 0x1D, CHR 0x1E, CHR 0x1F, CHR 0x20]"

definition isspace :: "char \<Rightarrow> bool" where
  "isspace c = (c \<in> set whitespace)"

definition lowercase :: "char list" where
  "lowercase = ''abcdefghijklmnopqrstuvwxyz''"

definition uppercase :: "char list" where
  "uppercase = ''ABCDEFGHIJKLMNOPQRSTUVWXYZ''"

text \<open>\<^verbatim>\<open>c.isalpha()\<close> and \<^verbatim>\<open>c.capitalize()\<close> for a string of one character.\<close>

definition isalpha :: "char \<Rightarrow> bool" where
  "isalpha c = (c \<in> set lowercase \<or> c \<in> set uppercase)"

definition capitalize :: "char \<Rightarrow> char" where
  "capitalize c = (case map_of (zip lowercase uppercase) c of Some u \<Rightarrow> u | None \<Rightarrow> c)"

text \<open>\<^verbatim>\<open>s.replace('\n', '')\<close>, \<^verbatim>\<open>s.strip()\<close> and \<^verbatim>\<open>s.split(' ')[0]\<close>.\<close>

definition replace_nl :: "string \<Rightarrow> string" where
  "replace_nl s = filter (\<lambda>c. c \<noteq> NL) s"

definition strip :: "string \<Rightarrow> string" where
  "strip s = rev (dropWhile isspace (rev (dropWhile isspace s)))"

definition split_space_0 :: "string \<Rightarrow> string" where
  "split_space_0 s = takeWhile (\<lambda>c. c \<noteq> CHR '' '') s"

text \<open>
  \<^verbatim>\<open>int(s)\<close> for a string: the surrounding whitespace is dropped, then comes an optional
  sign, then decimal digits, where a single underscore may stand between two digits.
  Anything else raises \<^verbatim>\<open>ValueError\<close>, here \<open>None\<close>. (The limit that recent
  interpreters put on the number of digits is not modelled.)
\<close>

definition digit_val :: "char \<Rightarrow> int option" where
  "digit_val c =
     map_of [(CHR ''0'', 0), (CHR ''1'', 1), (CHR ''2'', 2), (CHR ''3'', 3), (CHR ''4'', 4),
             (CHR ''5'', 5), (CHR ''6'', 6), (CHR ''7'', 7), (CHR ''8'', 8), (CHR ''9'', 9)] c"

fun digits :: "int \<Rightarrow> string \<Rightarrow> int option" where
  "digits acc [] = Some acc"
| "digits acc [c] = (case digit_val c of Some d \<Rightarrow> Some (10 * acc + d) | None \<Rightarrow> None)"
| "digits acc (c # c' # cs) =
     (case digit_val c of
        Some d \<Rightarrow>
          if c' = CHR ''_'' then
            (if cs = [] then None else digits (10 * acc + d) cs)
          else digits (10 * acc + d) (c' # cs)
      | None \<Rightarrow> None)"

definition unsigned :: "string \<Rightarrow> int option" where
  "unsigned s = (if s = [] then None else digits 0 s)"

definition py_int :: "string \<Rightarrow> int option" where
  "py_int s =
     (case strip s of
        [] \<Rightarrow> None
      | c # cs \<Rightarrow>
          if c = CHR ''-'' then map_option uminus (unsigned cs)
          else if c = CHR ''+'' then unsigned cs
          else unsigned (c # cs))"

text \<open>\<^verbatim>\<open>xs[i]\<close> for a list and an index that is not negative.\<close>

definition item :: "'a list \<Rightarrow> nat \<Rightarrow> 'a res" where
  "item xs i = (if i < length xs then ret (xs ! i) else raise IndexError)"

text \<open>\<^verbatim>\<open>d[k]\<close> for a dictionary, kept as the list of its items in their order.\<close>

definition lookup :: "('k \<times> 'v) list \<Rightarrow> 'k \<Rightarrow> 'v res" where
  "lookup d k = (case map_of d k of Some v \<Rightarrow> ret v | None \<Rightarrow> raise KeyError)"

text \<open>\<^verbatim>\<open>sep.join(xs)\<close>.\<close>

fun join :: "string \<Rightarrow> string list \<Rightarrow> string" where
  "join sep [] = []"
| "join sep [x] = x"
| "join sep (x # y # ys) = x @ sep @ join sep (y # ys)"

subsection \<open>The part of pandas that the reader calls\<close>

text \<open>
  A timestamp and a duration are integers, counted in one unit of time. The three parsers
  of pandas are parameters of the reader: each gives \<open>None\<close> where pandas raises.
  \<open>pd_to_offset\<close> reads the \<^verbatim>\<open>freq\<close> of \<^verbatim>\<open>pd.date_range\<close> and gives the length of a
  fixed frequency; \<open>date_range\<close> is then the regular sequence of \<^verbatim>\<open>periods\<close> timestamps
  from \<^verbatim>\<open>start\<close>. A series is the list of its (timestamp, value) pairs, and
  \<^verbatim>\<open>series.loc[a:b]\<close> on an increasing index keeps the pairs from \<open>a\<close> to \<open>b\<close>, both
  included.
\<close>

record pandas =
  pd_to_datetime :: "string \<Rightarrow> int option"
  pd_to_offset :: "string \<Rightarrow> int option"
  pd_Timedelta :: "string \<Rightarrow> int option"

datatype datetime_like = Timestamp int | DateString string

type_synonym series = "(int \<times> int) list"

definition to_datetime :: "pandas \<Rightarrow> datetime_like \<Rightarrow> int res" where
  "to_datetime pd x =
     (case x of
        Timestamp t \<Rightarrow> ret t
      | DateString s \<Rightarrow>
          (case pd_to_datetime pd s of Some t \<Rightarrow> ret t | None \<Rightarrow> raise ValueError_datetime))"

definition Timedelta :: "pandas \<Rightarrow> string \<Rightarrow> int res" where
  "Timedelta pd s =
     (case pd_Timedelta pd s of Some d \<Rightarrow> ret d | None \<Rightarrow> raise ValueError_timedelta)"

definition date_range :: "pandas \<Rightarrow> int \<Rightarrow> nat \<Rightarrow> string \<Rightarrow> int list res" where
  "date_range pd start periods freq =
     (case pd_to_offset pd freq of
        Some q \<Rightarrow> ret (map (\<lambda>i. start + int i * q) [0..<periods])
      | None \<Rightarrow> raise ValueError_offset)"

definition Series :: "int list \<Rightarrow> int list \<Rightarrow> series" where
  "Series data index = zip index data"

definition index_last :: "series \<Rightarrow> int res" where
  "index_last s = (if s = [] then raise IndexError else ret (fst (last s)))"

definition loc_slice :: "series \<Rightarrow> int \<Rightarrow> int \<Rightarrow> series" where
  "loc_slice s a b = filter (\<lambda>(t, v). a \<le> t \<and> t \<le> b) s"

subsection \<open>The class \<^verbatim>\<open>RawAWD\<close>\<close>

definition frequency_code :: "(string \<times> string) list" where
  "frequency_code =
     [(''1'', ''15s''),
      (''2'', ''30s''),
      (''4'', ''60s''),
      (''8'', ''2min''),
      (''20'', ''5min''),
      (''81'', ''2s''),
      (''C1'', ''5s''),
      (''C2'', ''10s'')]"

definition device_code :: "(string \<times> string) list" where
  "device_code =
     [(''D'', ''Actiwatch-7''),
      (''I'', ''Actiwatch-Insomnia (pressure sens.)''),
      (''L'', ''Actiwatch-L (amb. light)''),
      (''M'', ''Actiwatch-Mini''),
      (''P'', ''Actiwatch-L-Plus (amb. light)''),
      (''S'', ''Actiwatch-S (env. sound)''),
      (''T'', ''Actiwatch-T (temp.)''),
      (''V'', ''Actiwatch-4'')]"

text \<open>
  Modelled from the spec: the base class \<^verbatim>\<open>BaseRaw\<close> is not among the sources at hand.
  As the specification has it, the record that it builds holds what \<^verbatim>\<open>__init__\<close> hands
  to it: the name, the identifier, the format, the axial mode, the start and the length of
  the window, the sampling period, the series and no light channel. The last field is the
  private attribute \<^verbatim>\<open>__device_type\<close> of \<^verbatim>\<open>RawAWD\<close>, which is \<open>None\<close> as long as it was
  never set.
\<close>

record rawawd =
  raw_name :: string
  raw_uuid :: string
  raw_format :: string
  raw_axial_mode :: string
  raw_start_time :: int
  raw_period :: int
  raw_frequency :: int
  raw_data :: series
  raw_light :: "series option"
  device_type :: "string option"

definition extract_awd_name :: "string list \<Rightarrow> string res" where
  "extract_awd_name header = bind (item header 0) (\<lambda>l. ret (replace_nl l))"

definition extract_awd_frequency :: "string list \<Rightarrow> string option res" where
  "extract_awd_frequency header =
     bind (item header 3) (\<lambda>l.
       let freq = strip (replace_nl l) in
       if freq \<notin> set (map fst frequency_code) then
         bind (emit (Print ''Could not find acquisition frequency in header info.''))
           (\<lambda>_. ret None)
       else bind (lookup frequency_code freq) (\<lambda>v. ret (Some v)))"

definition extract_awd_uuid :: "string list \<Rightarrow> string res" where
  "extract_awd_uuid header = bind (item header 5) (\<lambda>l. ret (replace_nl l))"

definition extract_awd_start_time :: "pandas \<Rightarrow> string list \<Rightarrow> int res" where
  "extract_awd_start_time pd header =
     bind (item header 1) (\<lambda>l1.
     bind (item header 2) (\<lambda>l2.
       to_datetime pd (DateString (l1 @ '' '' @ l2))))"

definition wrn_msg :: string where
  "wrn_msg =
     ''Only the first data column will be used, assuming it corresponds '' @
     ''to activity counts.''"

definition extract_awd_model :: "string \<Rightarrow> string res" where
  "extract_awd_model uuid =
     bind (item uuid 0) (\<lambda>c.
       if isalpha c then
         (let dcode = [capitalize c] in
          if dcode \<in> set (map fst device_code) then ret dcode
          else
            bind (emit (Warn (
                ''The model specified in the UUID ('' @ dcode @ '')''
                @ '' is not supported at the moment.'' @ [NL]
                @ ''List of supported Actiwatch models:'' @ [NL]
                @ join [NL] (map (\<lambda>(k, dev). ''- '' @ k @ '': '' @ dev) device_code)
                @ [NL]
                @ wrn_msg)))
              (\<lambda>_. ret ''U''))
       else
         bind (emit (Warn (
             ''Cannot detect from the header info (UUID) ''
             @ ''which Actiwatch model was used to acquire the data.''
             @ [NL]
             @ wrn_msg)))
           (\<lambda>_. ret ''X''))"

text \<open>
  The two reads of the file: \<^verbatim>\<open>[next(f) for x in range(header_size)]\<close>, which gives the
  header and leaves the rest of the lines, and
  \<^verbatim>\<open>[int(line.split(' ')[0]) for line in f]\<close> on the rest.
\<close>

definition read_header :: "string list \<Rightarrow> int \<Rightarrow> (string list \<times> string list) res" where
  "read_header f header_size =
     (if nat header_size \<le> length f
      then ret (take (nat header_size) f, drop (nat header_size) f)
      else raise StopIteration)"

fun load_data :: "string list \<Rightarrow> int list res" where
  "load_data [] = ret []"
| "load_data (line # f) =
     (case py_int (split_space_0 line) of
        None \<Rightarrow> raise ValueError_int
      | Some v \<Rightarrow> bind (load_data f) (\<lambda>vs. ret (v # vs)))"

text \<open>
  \<^verbatim>\<open>__init__\<close>, in the order of its statements. Three of its blocks have a name here:
  the read of the device type (\<^verbatim>\<open>if uuid:\<close>), the choice of the sampling period
  (\<^verbatim>\<open>if freq is None:\<close>) and the bounds of the window (\<^verbatim>\<open>if start_time is not None:\<close>
  and \<^verbatim>\<open>if period is not None:\<close>), which gives the start, the stop and the length of the
  window.
\<close>

definition init_device_type :: "string \<Rightarrow> string option res" where
  "init_device_type uuid =
     (if uuid \<noteq> [] then bind (extract_awd_model uuid) (\<lambda>d. ret (Some d))
      else ret None)"

definition init_freq :: "string option \<Rightarrow> string option \<Rightarrow> string res" where
  "init_freq freq frequency =
     (case freq of
        None \<Rightarrow>
          (case frequency of
             Some fr \<Rightarrow> ret fr
           | None \<Rightarrow> raise ValueError_frequency)
      | Some fr \<Rightarrow> ret fr)"

definition init_window ::
  "pandas \<Rightarrow> int \<Rightarrow> series \<Rightarrow> datetime_like option \<Rightarrow> string option
   \<Rightarrow> (int \<times> int \<times> int) res" where
  "init_window pd start index_data start_time period =
     bind (case start_time of
             Some st \<Rightarrow> to_datetime pd st
           | None \<Rightarrow> ret start) (\<lambda>start_time.
     case period of
       Some p \<Rightarrow>
         bind (Timedelta pd p) (\<lambda>period. ret (start_time, start_time + period, period))
     | None \<Rightarrow>
         bind (index_last index_data) (\<lambda>stop_time.
           ret (start_time, stop_time, stop_time - start_time)))"

definition init ::
  "pandas \<Rightarrow> string list \<Rightarrow> int \<Rightarrow> string option \<Rightarrow> datetime_like option \<Rightarrow> string option
   \<Rightarrow> rawawd res" where
  "init pd input_file header_size frequency start_time period =
     bind (read_header input_file header_size) (\<lambda>(header, f).
     bind (load_data f) (\<lambda>data.
     bind (extract_awd_name header) (\<lambda>name.
     bind (extract_awd_frequency header) (\<lambda>freq.
     bind (extract_awd_uuid header) (\<lambda>uuid.
     bind (extract_awd_start_time pd header) (\<lambda>start.
     bind (init_device_type uuid) (\<lambda>dtype.
     bind (init_freq freq frequency) (\<lambda>freq.
     bind (date_range pd start (length data) freq) (\<lambda>index.
     bind (init_window pd start (Series data index) start_time period)
       (\<lambda>(start_time, stop_time, period).
     bind (Timedelta pd freq) (\<lambda>frequency.
       ret \<lparr>raw_name = name,
            raw_uuid = uuid,
            raw_format = ''AWD'',
            raw_axial_mode = ''mono-axial'',
            raw_start_time = start_time,
            raw_period = period,
            raw_frequency = frequency,
            raw_data = loc_slice (Series data index) start_time stop_time,
            raw_light = None,
            device_type = dtype\<rparr>)))))))))))"

text \<open>The property \<^verbatim>\<open>model\<close>.\<close>

definition model :: "rawawd \<Rightarrow> string res" where
  "model self =
     (case device_type self of
        None \<Rightarrow> raise AttributeError
      | Some d \<Rightarrow> lookup device_code d)"

subsection \<open>What the specification says, where it is compared with the code\<close>



text \<open>
  The sampling period that \<^verbatim>\<open>__init__\<close> settles on: the one of the header's code, or
  else the caller's \<^verbatim>\<open>frequency\<close>.
\<close>

definition resolved_freq :: "string list \<Rightarrow> string option \<Rightarrow> string option" where
  "resolved_freq header frequency =
     (case snd (extract_awd_frequency header) of
        Inr (Some fr) \<Rightarrow> Some fr
      | Inr None \<Rightarrow> frequency
      | Inl e \<Rightarrow> None)"

text \<open>
  The specification speaks of well-formed inputs and does not say which they are. Here an
  input is well formed when the header has its six lines at least, every data line starts
  with an integer and there is one data line at least, the start of the header is a date,
  and the sampling period is a positive fixed frequency that \<^verbatim>\<open>pd.date_range\<close> and
  \<^verbatim>\<open>pd.Timedelta\<close> read alike;
  \<open>data\<close>, \<open>start\<close> and \<open>q\<close> are then the samples, the start and the sampling period.
\<close>

definition well_formed ::
  "pandas \<Rightarrow> string list \<Rightarrow> int \<Rightarrow> string option \<Rightarrow> int list \<Rightarrow> int \<Rightarrow> int \<Rightarrow> bool" where
  "well_formed pd file hs frequency data start q \<longleftrightarrow>
     6 \<le> hs \<and> nat hs \<le> length file
     \<and> snd (load_data (drop (nat hs) file)) = Inr data \<and> data \<noteq> []
     \<and> pd_to_datetime pd (file ! 1 @ '' '' @ file ! 2) = Some start
     \<and> (case resolved_freq (take (nat hs) file) frequency of
          None \<Rightarrow> False
        | Some freq \<Rightarrow>
            pd_to_offset pd freq = Some q \<and> 0 < q \<and> pd_Timedelta pd freq = Some q)"

subsection \<open>A sample of the library and sample files\<close>

text \<open>
  A small instance of the three parsers, in seconds since 1970 and in seconds, and the file
  of the scenario of the specification, with its frequency code, its identifier and its
  data lines left open.
\<close>

definition sample_pd :: pandas where
  "sample_pd =
     \<lparr>pd_to_datetime = map_of [(''2021-01-01'' @ [NL] @ '' 08:00:00'' @ [NL], 1609488000)],
      pd_to_offset = map_of [(''15s'', 15), (''30s'', 30), (''2s'', 2), (''10s'', 10)],
      pd_Timedelta = map_of [(''15s'', 15), (''30s'', 30), (''2s'', 2), (''10s'', 10),
                             (''20s'', 20)]\<rparr>"

definition sample_file :: "string \<Rightarrow> string \<Rightarrow> string list \<Rightarrow> string list" where
  "sample_file code ident lines =
     [''Subject1'' @ [NL], ''2021-01-01'' @ [NL], ''08:00:00'' @ [NL], code @ [NL],
      ''...'' @ [NL], ident @ [NL], ''...'' @ [NL]] @ lines"

definition sample_lines :: "string list" where
  "sample_lines = [''10 x'' @ [NL], ''20 y'' @ [NL], ''5 z'' @ [NL], ''0 w'' @ [NL]]"

section \<open>What each step of the reader returns\<close>

text \<open>
  The second component of a computation is its error or its value; the lemmas of this
  section give it for every step of \<^verbatim>\<open>__init__\<close>, and then for \<^verbatim>\<open>__init__\<close> itself.
\<close>

lemma bind_ret: "bind (ret x) f = f x"
  by (simp add: bind_def ret_def split: prod.splits)

lemma bind_raise: "bind (raise e) f = raise e"
  by (simp add: bind_def raise_def)

lemma snd_bind:
  "snd (bind m f) = (case snd m of Inl e \<Rightarrow> Inl e | Inr x \<Rightarrow> snd (f x))"
  by (cases m) (simp add: bind_def split: sum.splits prod.splits)

lemma fst_bind:
  "fst (bind m f) = (case snd m of Inl e \<Rightarrow> fst m | Inr x \<Rightarrow> fst m @ fst (f x))"
  by (cases m) (simp add: bind_def split: sum.splits prod.splits)

lemma snd_ret: "snd (ret x) = Inr x"
  by (simp add: ret_def)

lemma snd_raise: "snd (raise e) = Inl e"
  by (simp add: raise_def)

lemma snd_item: "snd (item xs i) = (if i < length xs then Inr (xs ! i) else Inl IndexError)"
  by (simp add: item_def snd_ret snd_raise)

lemma fst_item: "fst (item xs i) = []"
  by (simp add: item_def ret_def raise_def)

lemma snd_load_data:
  "snd (load_data f) =
     (if list_all (\<lambda>line. py_int (split_space_0 line) \<noteq> None) f
      then Inr (map (\<lambda>line. the (py_int (split_space_0 line))) f)
      else Inl ValueError_int)"
  by (induction f) (auto simp: snd_ret snd_raise snd_bind split: option.splits)

lemma fst_load_data: "fst (load_data f) = []"
  by (induction f) (auto simp: ret_def raise_def fst_bind split: option.splits sum.splits)


lemma snd_extract_awd_frequency:
  assumes len: "3 < length header"
  shows "snd (extract_awd_frequency header) =
     Inr (map_of frequency_code (strip (replace_nl (header ! 3))))"
proof (cases "map_of frequency_code (strip (replace_nl (header ! 3)))")
  case None
  then have "strip (replace_nl (header ! 3)) \<notin> set (map fst frequency_code)"
    by (simp add: map_of_eq_None_iff)
  with None len show ?thesis
    by (simp add: extract_awd_frequency_def snd_bind snd_item Let_def emit_def snd_ret)
next
  case (Some v)
  then have "strip (replace_nl (header ! 3)) \<in> set (map fst frequency_code)"
    by (metis map_of_eq_None_iff option.distinct(1) set_map)
  with Some len show ?thesis
    by (simp add: extract_awd_frequency_def snd_bind snd_item Let_def lookup_def snd_ret)
qed

lemma snd_read_header:
  "snd (read_header f hs) =
     (if nat hs \<le> length f then Inr (take (nat hs) f, drop (nat hs) f) else Inl StopIteration)"
  by (simp add: read_header_def snd_ret snd_raise)

lemma snd_extract_awd_name:
  "snd (extract_awd_name header) =
     (if 0 < length header then Inr (replace_nl (header ! 0)) else Inl IndexError)"
  by (simp add: extract_awd_name_def snd_bind snd_item snd_ret)

lemma snd_extract_awd_uuid:
  "snd (extract_awd_uuid header) =
     (if 5 < length header then Inr (replace_nl (header ! 5)) else Inl IndexError)"
  by (simp add: extract_awd_uuid_def snd_bind snd_item snd_ret)

lemma snd_to_datetime:
  "snd (to_datetime pd x) =
     (case x of
        Timestamp t \<Rightarrow> Inr t
      | DateString s \<Rightarrow>
          (case pd_to_datetime pd s of Some t \<Rightarrow> Inr t | None \<Rightarrow> Inl ValueError_datetime))"
  by (simp add: to_datetime_def snd_ret snd_raise split: datetime_like.splits option.splits)

lemma snd_extract_awd_start_time:
  "2 < length header \<Longrightarrow>
   snd (extract_awd_start_time pd header) =
     (case pd_to_datetime pd (header ! 1 @ '' '' @ header ! 2) of
        Some t \<Rightarrow> Inr t
      | None \<Rightarrow> Inl ValueError_datetime)"
  by (simp add: extract_awd_start_time_def snd_bind snd_item snd_to_datetime)

lemma snd_extract_awd_model:
  "snd (extract_awd_model uuid) =
     (case uuid of
        [] \<Rightarrow> Inl IndexError
      | c # cs \<Rightarrow>
          Inr (if isalpha c
               then (if [capitalize c] \<in> set (map fst device_code) then [capitalize c] else ''U'')
               else ''X''))"
  by (cases uuid)
     (simp_all add: extract_awd_model_def snd_bind snd_item snd_ret emit_def Let_def)

lemma snd_Timedelta:
  "snd (Timedelta pd s) =
     (case pd_Timedelta pd s of Some d \<Rightarrow> Inr d | None \<Rightarrow> Inl ValueError_timedelta)"
  by (simp add: Timedelta_def snd_ret snd_raise split: option.splits)

lemma snd_date_range:
  "snd (date_range pd start n freq) =
     (case pd_to_offset pd freq of
        Some q \<Rightarrow> Inr (map (\<lambda>i. start + int i * q) [0..<n])
      | None \<Rightarrow> Inl ValueError_offset)"
  by (simp add: date_range_def snd_ret snd_raise split: option.splits)

lemma last_zip_index:
  assumes "data \<noteq> []"
  shows "fst (last (zip (map (\<lambda>i. start + int i * q) [0..<length data]) data)) =
     start + (int (length data) - 1) * q"
proof -
  let ?ix = "map (\<lambda>i. start + int i * q) [0..<length data]"
  have len: "length (zip ?ix data) = length data" by simp
  have ne: "zip ?ix data \<noteq> []" using assms len by (metis length_0_conv)
  have "last (zip ?ix data) = zip ?ix data ! (length data - 1)"
    using ne len by (simp add: last_conv_nth)
  also have "\<dots> = (?ix ! (length data - 1), data ! (length data - 1))"
    using assms by (intro nth_zip) simp_all
  finally show ?thesis using assms by (simp add: of_nat_diff Suc_leI)
qed

lemma snd_index_last:
  "snd (index_last (Series data (map (\<lambda>i. start + int i * q) [0..<length data]))) =
     (if data = [] then Inl IndexError else Inr (start + (int (length data) - 1) * q))"
  by (auto simp: index_last_def Series_def snd_ret snd_raise last_zip_index)

lemma snd_extract_awd_frequency_short:
  "\<not> 3 < length header \<Longrightarrow> snd (extract_awd_frequency header) = Inl IndexError"
  by (simp add: extract_awd_frequency_def snd_bind snd_item)

lemma resolved_freq_eq:
  "3 < length header \<Longrightarrow>
   resolved_freq header frequency =
     (case map_of frequency_code (strip (replace_nl (header ! 3))) of
        Some fr \<Rightarrow> Some fr
      | None \<Rightarrow> frequency)"
  by (simp add: resolved_freq_def snd_extract_awd_frequency split: option.splits)

lemma snd_init_device_type:
  "snd (init_device_type uuid) =
     Inr (if uuid = [] then None else Some (projr (snd (extract_awd_model uuid))))"
  by (cases uuid) (simp_all add: init_device_type_def snd_bind snd_ret snd_extract_awd_model)

lemma snd_init_freq:
  "snd (init_freq freq frequency) =
     (case (case freq of Some fr \<Rightarrow> Some fr | None \<Rightarrow> frequency) of
        None \<Rightarrow> Inl ValueError_frequency
      | Some fr \<Rightarrow> Inr fr)"
  by (simp add: init_freq_def snd_ret snd_raise split: option.splits)

lemma snd_init_window:
  "snd (init_window pd start (Series data (map (\<lambda>i. start + int i * q) [0..<length data]))
          start_time period) =
     (case (case start_time of None \<Rightarrow> Inr start | Some st \<Rightarrow> snd (to_datetime pd st)) of
        Inl e \<Rightarrow> Inl e
      | Inr s \<Rightarrow>
          (case period of
             Some p \<Rightarrow>
               (case pd_Timedelta pd p of
                  None \<Rightarrow> Inl ValueError_timedelta
                | Some d \<Rightarrow> Inr (s, s + d, d))
           | None \<Rightarrow>
               if data = [] then Inl IndexError
               else Inr (s, start + (int (length data) - 1) * q,
                         start + (int (length data) - 1) * q - s)))"
proof -
  let ?ix = "Series data (map (\<lambda>i. start + int i * q) [0..<length data])"
  have tail: "\<And>s. snd (case period of
        Some p \<Rightarrow> bind (Timedelta pd p) (\<lambda>period. ret (s, s + period, period))
      | None \<Rightarrow> bind (index_last ?ix) (\<lambda>stop_time. ret (s, stop_time, stop_time - s))) =
     (case period of
        Some p \<Rightarrow>
          (case pd_Timedelta pd p of
             None \<Rightarrow> Inl ValueError_timedelta
           | Some d \<Rightarrow> Inr (s, s + d, d))
      | None \<Rightarrow>
          if data = [] then Inl IndexError
          else Inr (s, start + (int (length data) - 1) * q,
                    start + (int (length data) - 1) * q - s))"
  proof -
    fix s show "?thesis s"
    proof (cases period)
      case None
      then show ?thesis by (simp add: snd_bind snd_index_last snd_ret)
    next
      case (Some p)
      then show ?thesis
        by (cases "pd_Timedelta pd p") (simp_all add: snd_bind snd_Timedelta snd_ret)
    qed
  qed
  show ?thesis
    unfolding init_window_def snd_bind tail
    by (cases start_time) (simp_all add: snd_ret)
qed

lemma snd_init:
  "snd (init pd file hs frequency start_time period) =
     (if length file < nat hs then Inl StopIteration else
      case snd (load_data (drop (nat hs) file)) of
        Inl e \<Rightarrow> Inl e
      | Inr data \<Rightarrow>
      if nat hs < 6 then Inl IndexError else
      case pd_to_datetime pd (file ! 1 @ '' '' @ file ! 2) of
        None \<Rightarrow> Inl ValueError_datetime
      | Some start \<Rightarrow>
      case resolved_freq (take (nat hs) file) frequency of
        None \<Rightarrow> Inl ValueError_frequency
      | Some freq \<Rightarrow>
      case pd_to_offset pd freq of
        None \<Rightarrow> Inl ValueError_offset
      | Some q \<Rightarrow>
      case snd (init_window pd start
                 (Series data (map (\<lambda>i. start + int i * q) [0..<length data]))
                 start_time period) of
        Inl e \<Rightarrow> Inl e
      | Inr (s, stop, len) \<Rightarrow>
      case pd_Timedelta pd freq of
        None \<Rightarrow> Inl ValueError_timedelta
      | Some d \<Rightarrow>
          Inr \<lparr>raw_name = replace_nl (file ! 0),
               raw_uuid = replace_nl (file ! 5),
               raw_format = ''AWD'',
               raw_axial_mode = ''mono-axial'',
               raw_start_time = s,
               raw_period = len,
               raw_frequency = d,
               raw_data =
                 loc_slice (Series data (map (\<lambda>i. start + int i * q) [0..<length data])) s stop,
               raw_light = None,
               device_type =
                 (if replace_nl (file ! 5) = [] then None
                  else Some (projr (snd (extract_awd_model (replace_nl (file ! 5))))))\<rparr>)"
proof (cases "length file < nat hs")
  case True
  then show ?thesis
    by (simp add: init_def snd_bind snd_read_header)
next
  case le: False
  show ?thesis
  proof (cases "snd (load_data (drop (nat hs) file))")
    case (Inl e)
    with le show ?thesis
      by (simp add: init_def snd_bind snd_read_header)
  next
    case (Inr data)
    show ?thesis
    proof (cases "nat hs < 6")
      case True
      have "snd (extract_awd_frequency (take (nat hs) file)) = Inl IndexError
          \<or> (\<exists>v. snd (extract_awd_frequency (take (nat hs) file)) = Inr v)"
        using snd_extract_awd_frequency_short [of "take (nat hs) file"]
          snd_extract_awd_frequency [of "take (nat hs) file"] by blast
      with le Inr True show ?thesis
        by (auto simp: init_def snd_bind snd_read_header snd_extract_awd_name
            snd_extract_awd_uuid split: sum.splits)
    next
      case False
      define header where "header = take (nat hs) file"
      have rh: "snd (read_header file hs) = Inr (header, drop (nat hs) file)"
        using le by (simp add: snd_read_header header_def)
      have len: "0 < length header" "2 < length header" "3 < length header"
        "5 < length header"
        using le False by (simp_all add: header_def)
      have nth: "header ! 0 = file ! 0" "header ! 1 = file ! 1" "header ! 2 = file ! 2"
        "header ! 3 = file ! 3" "header ! 5 = file ! 5"
        using le False by (simp_all add: header_def)
      have fr: "snd (extract_awd_frequency header) =
          Inr (map_of frequency_code (strip (replace_nl (file ! 3))))"
        using snd_extract_awd_frequency [OF len(3)] nth by simp
      have rf: "resolved_freq (take (nat hs) file) frequency =
          (case map_of frequency_code (strip (replace_nl (file ! 3))) of
             Some fr \<Rightarrow> Some fr | None \<Rightarrow> frequency)"
        using resolved_freq_eq [OF len(3)] nth by (simp add: header_def)
      have st: "snd (extract_awd_start_time pd header) =
          (case pd_to_datetime pd (file ! 1 @ '' '' @ file ! 2) of
             Some t \<Rightarrow> Inr t | None \<Rightarrow> Inl ValueError_datetime)"
        using snd_extract_awd_start_time [OF len(2)] nth by simp
      have nm: "snd (extract_awd_name header) = Inr (replace_nl (file ! 0))"
        using len nth by (simp add: snd_extract_awd_name)
      have uu: "snd (extract_awd_uuid header) = Inr (replace_nl (file ! 5))"
        using len nth by (simp add: snd_extract_awd_uuid)
      have eq: "snd (init pd file hs frequency start_time period) =
        (case pd_to_datetime pd (file ! 1 @ '' '' @ file ! 2) of
           None \<Rightarrow> Inl ValueError_datetime
         | Some start \<Rightarrow>
             (case snd (init_freq (map_of frequency_code (strip (replace_nl (file ! 3))))
                         frequency) of
                Inl e \<Rightarrow> Inl e
              | Inr freq \<Rightarrow>
                  (case snd (date_range pd start (length data) freq) of
                     Inl e \<Rightarrow> Inl e
                   | Inr index \<Rightarrow>
                       (case snd (init_window pd start (Series data index) start_time period) of
                          Inl e \<Rightarrow> Inl e
                        | Inr (s, stop, len) \<Rightarrow>
                            (case snd (Timedelta pd freq) of
                               Inl e \<Rightarrow> Inl e
                             | Inr d \<Rightarrow>
                                 Inr \<lparr>raw_name = replace_nl (file ! 0),
                                      raw_uuid = replace_nl (file ! 5),
                                      raw_format = ''AWD'',
                                      raw_axial_mode = ''mono-axial'',
                                      raw_start_time = s,
                                      raw_period = len,
                                      raw_frequency = d,
                                      raw_data = loc_slice (Series data index) s stop,
                                      raw_light = None,
                                      device_type =
                                        (if replace_nl (file ! 5) = [] then None
                                         else Some (projr (snd (extract_awd_model
                                                (replace_nl (file ! 5))))))\<rparr>)))))"
        by (simp add: init_def snd_bind rh Inr nm fr uu st snd_init_device_type snd_ret
            split: option.splits prod.splits sum.splits)
      show ?thesis
        unfolding eq using le Inr False
        by (simp add: rf snd_init_freq snd_date_range snd_Timedelta
            split: option.splits sum.splits prod.splits)
    qed
  qed
qed

subsection \<open>The window and the regular index\<close>

lemma snd_init_window_series:
  "snd (init_window pd start ix start_time period) =
     (case (case start_time of None \<Rightarrow> Inr start | Some st \<Rightarrow> snd (to_datetime pd st)) of
        Inl e \<Rightarrow> Inl e
      | Inr s \<Rightarrow>
          (case period of
             Some p \<Rightarrow>
               (case pd_Timedelta pd p of
                  None \<Rightarrow> Inl ValueError_timedelta
                | Some d \<Rightarrow> Inr (s, s + d, d))
           | None \<Rightarrow>
               if ix = [] then Inl IndexError
               else Inr (s, fst (last ix), fst (last ix) - s)))"
proof -
  have tail: "\<And>s. snd (case period of
        Some p \<Rightarrow> bind (Timedelta pd p) (\<lambda>period. ret (s, s + period, period))
      | None \<Rightarrow> bind (index_last ix) (\<lambda>stop_time. ret (s, stop_time, stop_time - s))) =
     (case period of
        Some p \<Rightarrow>
          (case pd_Timedelta pd p of
             None \<Rightarrow> Inl ValueError_timedelta
           | Some d \<Rightarrow> Inr (s, s + d, d))
      | None \<Rightarrow>
          if ix = [] then Inl IndexError
          else Inr (s, fst (last ix), fst (last ix) - s))"
  proof -
    fix s show "?thesis s"
    proof (cases period)
      case None
      then show ?thesis by (simp add: snd_bind index_last_def snd_raise snd_ret)
    next
      case (Some p)
      then show ?thesis
        by (cases "pd_Timedelta pd p") (simp_all add: snd_bind snd_Timedelta snd_ret)
    qed
  qed
  show ?thesis
    unfolding init_window_def snd_bind tail
    by (cases start_time) (simp_all add: snd_ret)
qed

lemma index_bounds:
  assumes "0 \<le> q" "(t, v) \<in> set (Series data (map (\<lambda>i. start + int i * q) [0..<length data]))"
  shows "start \<le> t \<and> t \<le> start + (int (length data) - 1) * q"
proof -
  from assms(2) have "t \<in> set (map (\<lambda>i. start + int i * q) [0..<length data])"
    unfolding Series_def by (rule set_zip_leftD)
  then obtain i where i: "i < length data" "t = start + int i * q" by auto
  from i(1) have "int i \<le> int (length data) - 1" by simp
  then have "int i * q \<le> (int (length data) - 1) * q"
    using assms(1) by (rule mult_right_mono)
  moreover have "0 \<le> int i * q" using assms(1) by simp
  ultimately show ?thesis using i(2) by simp
qed

lemma loc_slice_full:
  assumes "0 \<le> q"
  shows "loc_slice (Series data (map (\<lambda>i. start + int i * q) [0..<length data]))
           start (start + (int (length data) - 1) * q) =
         Series data (map (\<lambda>i. start + int i * q) [0..<length data])"
  unfolding loc_slice_def
  by (rule filter_True) (use index_bounds [OF assms] in auto)

lemma loc_slice_after:
  assumes "0 \<le> q" "start + (int (length data) - 1) * q < s"
  shows "loc_slice (Series data (map (\<lambda>i. start + int i * q) [0..<length data])) s e = []"
  unfolding loc_slice_def filter_empty_conv
  using index_bounds [OF assms(1)] assms(2) by fastforce

lemma Series_index:
  "length (Series data (map f [0..<length data])) = length data"
  "map snd (Series data (map f [0..<length data])) = data"
  "map fst (Series data (map f [0..<length data])) = map f [0..<length data]"
  by (simp_all add: Series_def)

lemma init_unwindowed:
  assumes "well_formed pd file hs frequency data start q"
  shows "\<exists>r. snd (init pd file hs frequency None None) = Inr r
     \<and> raw_data r = Series data (map (\<lambda>i. start + int i * q) [0..<length data])
     \<and> raw_start_time r = start
     \<and> raw_period r = (int (length data) - 1) * q
     \<and> raw_frequency r = q"
  using assms loc_slice_full [of q data start]
  by (auto simp: well_formed_def snd_init snd_init_window split: option.splits)

lemma init_windowed:
  assumes "well_formed pd file hs frequency data start q"
    and "snd (to_datetime pd S) = Inr s"
    and "case period of None \<Rightarrow> stop = start + (int (length data) - 1) * q
         | Some P \<Rightarrow> (case pd_Timedelta pd P of None \<Rightarrow> False | Some p \<Rightarrow> stop = s + p)"
  shows "\<exists>r. snd (init pd file hs frequency (Some S) period) = Inr r
     \<and> raw_data r =
         loc_slice (Series data (map (\<lambda>i. start + int i * q) [0..<length data])) s stop
     \<and> raw_start_time r = s \<and> raw_period r = stop - s \<and> raw_frequency r = q"
  using assms
  by (auto simp: well_formed_def snd_init snd_init_window split: option.splits)

subsection \<open>What the reader prints\<close>

lemma extract_awd_frequency_eq:
  assumes len: "3 < length header"
  shows "extract_awd_frequency header =
     (case map_of frequency_code (strip (replace_nl (header ! 3))) of
        None \<Rightarrow> ([Print ''Could not find acquisition frequency in header info.''], Inr None)
      | Some v \<Rightarrow> ([], Inr (Some v)))"
proof (cases "map_of frequency_code (strip (replace_nl (header ! 3)))")
  case None
  then have "strip (replace_nl (header ! 3)) \<notin> set (map fst frequency_code)"
    by (simp add: map_of_eq_None_iff)
  with None len show ?thesis
    by (simp add: extract_awd_frequency_def item_def bind_def ret_def emit_def Let_def)
next
  case (Some v)
  then have "strip (replace_nl (header ! 3)) \<in> set (map fst frequency_code)"
    by (metis map_of_eq_None_iff option.distinct(1) set_map)
  with Some len show ?thesis
    by (simp add: extract_awd_frequency_def item_def bind_def ret_def lookup_def Let_def)
qed

lemma fst_bind_Inr: "m = (w, Inr x) \<Longrightarrow> fst (bind m f) = w @ fst (f x)"
  by (simp add: bind_def split: prod.splits)

lemma init_prints_missing_frequency:
  assumes "nat hs \<le> length file" "3 < nat hs"
    and "snd (load_data (drop (nat hs) file)) = Inr data"
    and "map_of frequency_code (strip (replace_nl (file ! 3))) = None"
  shows "Print ''Could not find acquisition frequency in header info.''
     \<in> set (fst (init pd file hs frequency start_time period))"
proof -
  define header where "header = take (nat hs) file"
  have len: "0 < length header" "3 < length header" and nth: "header ! 3 = file ! 3"
    using assms(1,2) by (simp_all add: header_def)
  have 1: "read_header file hs = ([], Inr (header, drop (nat hs) file))"
    using assms(1) by (simp add: read_header_def ret_def header_def)
  have 2: "load_data (drop (nat hs) file) = ([], Inr data)"
    using assms(3) by (simp add: prod_eq_iff fst_load_data)
  have 3: "extract_awd_name header = ([], Inr (replace_nl (header ! 0)))"
    using len by (simp add: extract_awd_name_def item_def bind_def ret_def)
  have 4: "extract_awd_frequency header =
      ([Print ''Could not find acquisition frequency in header info.''], Inr None)"
    using extract_awd_frequency_eq [OF len(2)] assms(4) nth by simp
  show ?thesis
    unfolding init_def
    by (simp add: fst_bind_Inr [OF 1] fst_bind_Inr [OF 2] fst_bind_Inr [OF 3]
        fst_bind_Inr [OF 4])
qed

subsection \<open>The sample files\<close>

lemma sample_data: "snd (load_data sample_lines) = Inr [10, 20, 5, 0]"
  by code_simp

lemma sample_well_formed:
  "well_formed sample_pd (sample_file ''1'' ''D123456'' sample_lines) 7 None
     [10, 20, 5, 0] 1609488000 15"
  by code_simp

lemma sample_index:
  "Series [10, 20, 5, 0] (map (\<lambda>i. 1609488000 + int i * 15) [0..<length [10, 20, 5, 0 :: int]])
     = [(1609488000, 10), (1609488015, 20), (1609488030, 5), (1609488045, 0)]"
  by code_simp

section \<open>The claims\<close>

subsection \<open>The frequency code (C7)\<close>

text \<open>
  Claim C7. What \<^verbatim>\<open>__extract_awd_frequency\<close> writes and returns is a function of the
  trimmed line 3 of the header alone: it is the entry of the frequency table at that code,
  with no message, or else \<open>None\<close>, the unresolved frequency, with one printed message and
  no exception. Two headers with the same trimmed code give the same result. The table
  sends \<^verbatim>\<open>"1"\<close> to \<^verbatim>\<open>'15s'\<close>, \<^verbatim>\<open>"81"\<close> to \<^verbatim>\<open>'2s'\<close> and \<^verbatim>\<open>"C2"\<close> to \<^verbatim>\<open>'10s'\<close>.
\<close>

theorem C7_frequency_code_mapping:
  "(3 < length header \<longrightarrow>
      extract_awd_frequency header =
        (case map_of frequency_code (strip (replace_nl (header ! 3))) of
           None \<Rightarrow> ([Print ''Could not find acquisition frequency in header info.''], Inr None)
         | Some v \<Rightarrow> ([], Inr (Some v))))
   \<and> (3 < length header \<and> 3 < length header'
        \<and> strip (replace_nl (header ! 3)) = strip (replace_nl (header' ! 3)) \<longrightarrow>
      extract_awd_frequency header = extract_awd_frequency header')
   \<and> map_of frequency_code ''1'' = Some ''15s''
   \<and> map_of frequency_code ''81'' = Some ''2s''
   \<and> map_of frequency_code ''C2'' = Some ''10s''"
  by (simp add: extract_awd_frequency_eq frequency_code_def)

text \<open>
  The theorem at two headers: the code \<^verbatim>\<open>" 81 "\<close>, with blanks around it, resolves to
  \<^verbatim>\<open>'2s'\<close>, as the code \<^verbatim>\<open>"81"\<close> of another header does.
\<close>

theorem C7_frequency_code_mapping_witness:
  "extract_awd_frequency (sample_file '' 81 '' ''D123456'' []) = ([], Inr (Some ''2s''))
   \<and> extract_awd_frequency (sample_file '' 81 '' ''D123456'' []) =
       extract_awd_frequency (sample_file ''81'' ''V1'' sample_lines)"
  using C7_frequency_code_mapping [of "sample_file '' 81 '' ''D123456'' []"
       "sample_file ''81'' ''V1'' sample_lines"]
  by (auto simp: sample_file_def sample_lines_def frequency_code_def strip_def replace_nl_def
      NL_def isspace_def whitespace_def)

subsection \<open>The device model (C1, C9)\<close>

text \<open>
  Claim C1. Reading a file and then its property \<^verbatim>\<open>model\<close>: the identifier
  \<^verbatim>\<open>"d1234"\<close> gives \<^verbatim>\<open>"Actiwatch-7"\<close>. For the identifiers \<^verbatim>\<open>"9xyz"\<close> and \<^verbatim>\<open>"z999"\<close>,
  \<^verbatim>\<open>__extract_awd_model\<close> returns the codes \<^verbatim>\<open>'X'\<close> and \<^verbatim>\<open>'U'\<close>, which
  \<^verbatim>\<open>__init__\<close> stores; the table \<^verbatim>\<open>device_code\<close> has no entry for them, and the
  property raises \<^verbatim>\<open>KeyError\<close> where the claim has it return a model name.
\<close>

theorem C1_model_accessor:
  "snd (bind (init sample_pd (sample_file ''1'' ''d1234'' sample_lines) 7 None None None) model)
     = Inr ''Actiwatch-7''
   \<and> snd (bind (init sample_pd (sample_file ''1'' ''9xyz'' sample_lines) 7 None None None) model)
     = Inl KeyError
   \<and> snd (bind (init sample_pd (sample_file ''1'' ''z999'' sample_lines) 7 None None None) model)
     = Inl KeyError
   \<and> snd (extract_awd_model ''9xyz'') = Inr ''X''
   \<and> snd (extract_awd_model ''z999'') = Inr ''U''"
  by code_simp

text \<open>
  Claim C9. Let line 5 of the file be empty once its line terminator is removed. A reading
  that succeeds leaves the device type unset, and the property \<^verbatim>\<open>model\<close> of its record
  raises \<^verbatim>\<open>AttributeError\<close>. The empty identifier does not make the reading fail: for a
  well-formed input the reading succeeds, and \<^verbatim>\<open>model\<close> fails on its record.
\<close>

theorem C9_model_unset:
  assumes "replace_nl (file ! 5) = []"
  shows "(\<forall>r. snd (init pd file hs frequency start_time period) = Inr r \<longrightarrow>
            device_type r = None \<and> snd (model r) = Inl AttributeError)
    \<and> (well_formed pd file hs frequency data start q \<longrightarrow>
         (\<exists>r. snd (init pd file hs frequency None None) = Inr r
            \<and> snd (model r) = Inl AttributeError))"
proof -
  have unset: "device_type r = None \<and> snd (model r) = Inl AttributeError"
    if "snd (init pd file hs frequency st p) = Inr r" for r st p
  proof -
    from that assms have "device_type r = None"
      by (auto simp: snd_init split: if_splits sum.splits option.splits prod.splits)
    then show ?thesis by (simp add: model_def snd_raise)
  qed
  have "\<exists>r. snd (init pd file hs frequency None None) = Inr r
      \<and> snd (model r) = Inl AttributeError"
    if "well_formed pd file hs frequency data start q"
    using init_unwindowed [OF that] unset by blast
  with unset show ?thesis by blast
qed

text \<open>
  The sample file with an empty identifier line: the reading succeeds, and \<^verbatim>\<open>model\<close>
  fails on its record.
\<close>

theorem C9_model_unset_witness:
  "\<exists>r. snd (init sample_pd (sample_file ''1'' '''' sample_lines) 7 None None None) = Inr r
     \<and> device_type r = None \<and> snd (model r) = Inl AttributeError"
proof -
  have e: "replace_nl (sample_file ''1'' '''' sample_lines ! 5) = []"
    by (simp add: sample_file_def replace_nl_def)
  have wf: "well_formed sample_pd (sample_file ''1'' '''' sample_lines) 7 None
      [10, 20, 5, 0] 1609488000 15"
    by code_simp
  from C9_model_unset [OF e, of sample_pd 7 None None None "[10, 20, 5, 0]" 1609488000 15] wf
  show ?thesis by blast
qed

subsection \<open>The data loader (C2)\<close>




subsection \<open>The start of the recording (C8)\<close>

text \<open>
  Claim C8, as the specification states it, fails for a caller who gives a window start as
  a string: \<^verbatim>\<open>__init__\<close> reads it with the same \<^verbatim>\<open>pd.to_datetime\<close>, and a string that is
  no date raises the same error, although line 1, a space and line 2 of the header are a
  date.
\<close>

theorem C8_start_time_counterexample:
  "pd_to_datetime sample_pd
     (sample_file ''1'' ''D123456'' sample_lines ! 1 @ '' ''
        @ sample_file ''1'' ''D123456'' sample_lines ! 2) = Some 1609488000
   \<and> snd (init sample_pd (sample_file ''1'' ''D123456'' sample_lines) 7 None
          (Some (DateString ''garbage'')) None) = Inl ValueError_datetime"
  by code_simp

text \<open>
  Claim C8, amended. \<^verbatim>\<open>__extract_awd_start_time\<close> hands to \<^verbatim>\<open>pd.to_datetime\<close> the line 1
  of the header, a space and the line 2, and returns its timestamp or raises its error. For
  a file whose header and data lines are read: when that concatenation is no date, the
  reading fails with the error of \<^verbatim>\<open>pd.to_datetime\<close>, whatever the options; the reading
  fails with this error exactly when the concatenation is no date, or the sampling period
  is resolved and read and the window start of the caller is a string that is no date; so
  for a caller whose window start is absent, a timestamp or a string that is a date, it
  fails with this error exactly when the concatenation is no date.
\<close>

theorem C8_start_time:
  "(2 < length header \<longrightarrow>
      snd (extract_awd_start_time pd header) =
        (case pd_to_datetime pd (header ! 1 @ '' '' @ header ! 2) of
           Some t \<Rightarrow> Inr t
         | None \<Rightarrow> Inl ValueError_datetime))
   \<and> (nat hs \<le> length file \<and> 6 \<le> hs
        \<and> snd (load_data (drop (nat hs) file)) = Inr data \<longrightarrow>
      (pd_to_datetime pd (file ! 1 @ '' '' @ file ! 2) = None \<longrightarrow>
         snd (init pd file hs frequency start_time period) = Inl ValueError_datetime)
      \<and> (snd (init pd file hs frequency start_time period) = Inl ValueError_datetime
           \<longleftrightarrow> pd_to_datetime pd (file ! 1 @ '' '' @ file ! 2) = None
             \<or> ((case resolved_freq (take (nat hs) file) frequency of
                    None \<Rightarrow> False
                  | Some freq \<Rightarrow> pd_to_offset pd freq \<noteq> None)
                \<and> (case start_time of
                     Some (DateString s) \<Rightarrow> pd_to_datetime pd s = None
                   | _ \<Rightarrow> False)))
      \<and> ((case start_time of
             Some (DateString s) \<Rightarrow> pd_to_datetime pd s \<noteq> None
           | _ \<Rightarrow> True) \<longrightarrow>
          (snd (init pd file hs frequency start_time period) = Inl ValueError_datetime
             \<longleftrightarrow> pd_to_datetime pd (file ! 1 @ '' '' @ file ! 2) = None)))"
proof -
  have ext: "2 < length header \<longrightarrow>
      snd (extract_awd_start_time pd header) =
        (case pd_to_datetime pd (header ! 1 @ '' '' @ header ! 2) of
           Some t \<Rightarrow> Inr t
         | None \<Rightarrow> Inl ValueError_datetime)"
    by (simp add: snd_extract_awd_start_time)
  have full: "snd (init pd file hs frequency start_time period) = Inl ValueError_datetime
           \<longleftrightarrow> pd_to_datetime pd (file ! 1 @ '' '' @ file ! 2) = None
             \<or> ((case resolved_freq (take (nat hs) file) frequency of
                    None \<Rightarrow> False
                  | Some freq \<Rightarrow> pd_to_offset pd freq \<noteq> None)
                \<and> (case start_time of
                     Some (DateString s) \<Rightarrow> pd_to_datetime pd s = None
                   | _ \<Rightarrow> False))"
    if "nat hs \<le> length file" "6 \<le> hs" "snd (load_data (drop (nat hs) file)) = Inr data"
    using that
    by (auto simp: snd_init snd_init_window_series snd_to_datetime
        split: option.splits sum.splits prod.splits datetime_like.splits if_splits)
  have readable: "snd (init pd file hs frequency start_time period) = Inl ValueError_datetime
             \<longleftrightarrow> pd_to_datetime pd (file ! 1 @ '' '' @ file ! 2) = None"
    if "nat hs \<le> length file" "6 \<le> hs" "snd (load_data (drop (nat hs) file)) = Inr data"
      and "case start_time of
             Some (DateString s) \<Rightarrow> pd_to_datetime pd s \<noteq> None
           | _ \<Rightarrow> True"
    using full [OF that(1-3)] that(4)
    by (auto split: option.splits datetime_like.splits)
  from ext full readable show ?thesis by blast
qed

text \<open>
  The sample header gives its start. With the line \<^verbatim>\<open>yesterday\<close> for the date, which the
  sample library does not read, the reading fails with the error of the date, also with a
  window start that is a timestamp; with the date of the sample and a window start that is
  a date, it does not.
\<close>

theorem C8_start_time_witness:
  "snd (extract_awd_start_time sample_pd (sample_file ''1'' ''D123456'' sample_lines))
     = Inr 1609488000
   \<and> snd (init sample_pd ((sample_file ''1'' ''D123456'' sample_lines)[1 := ''yesterday'' @ [NL]])
          7 None (Some (Timestamp 1609488010)) None) = Inl ValueError_datetime
   \<and> snd (init sample_pd (sample_file ''1'' ''D123456'' sample_lines) 7 None
          (Some (DateString (''2021-01-01'' @ [NL] @ '' 08:00:00'' @ [NL]))) None)
       \<noteq> Inl ValueError_datetime"
proof -
  let ?good = "sample_file ''1'' ''D123456'' sample_lines"
  let ?bad = "(sample_file ''1'' ''D123456'' sample_lines)[1 := ''yesterday'' @ [NL]]"
  let ?S = "DateString (''2021-01-01'' @ [NL] @ '' 08:00:00'' @ [NL])"
  have len: "2 < length ?good" "nat 7 \<le> length ?good" "nat 7 \<le> length ?bad" "(6::int) \<le> 7"
    by (simp_all add: sample_file_def)
  have data: "snd (load_data (drop (nat 7) ?good)) = Inr [10, 20, 5, 0]"
    "snd (load_data (drop (nat 7) ?bad)) = Inr [10, 20, 5, 0]"
    by code_simp+
  have date: "pd_to_datetime sample_pd (?good ! 1 @ '' '' @ ?good ! 2) = Some 1609488000"
    "pd_to_datetime sample_pd (?bad ! 1 @ '' '' @ ?bad ! 2) = None"
    by code_simp+
  have st: "case Some ?S of
             Some (DateString s) \<Rightarrow> pd_to_datetime sample_pd s \<noteq> None
           | _ \<Rightarrow> True"
    by code_simp
  from C8_start_time [of ?good sample_pd 7 ?bad "[10, 20, 5, 0]" None
      "Some (Timestamp 1609488010)" None] len data date
  have a: "snd (extract_awd_start_time sample_pd ?good) = Inr 1609488000"
    and b: "snd (init sample_pd ?bad 7 None (Some (Timestamp 1609488010)) None)
      = Inl ValueError_datetime"
    by simp_all
  from C8_start_time [of ?good sample_pd 7 ?good "[10, 20, 5, 0]" None "Some ?S" None]
    len data date st
  have c: "snd (init sample_pd ?good 7 None (Some ?S) None) \<noteq> Inl ValueError_datetime"
    by simp
  from a b c show ?thesis by blast
qed

subsection \<open>A file with no data line (C10)\<close>

text \<open>
  Claim C10. When nothing follows the header and the caller gives no \<^verbatim>\<open>period\<close>, the
  reading returns no record; when the header is complete, its start and its sampling period
  are read and the window start, if any, is read, the error is the \<^verbatim>\<open>IndexError\<close> of
  \<^verbatim>\<open>index_data.index[-1]\<close> on the empty series.
\<close>

theorem C10_no_data_lines:
  assumes "length file = nat hs"
  shows "(\<exists>e. snd (init pd file hs frequency start_time None) = Inl e)
    \<and> (6 \<le> hs
        \<and> pd_to_datetime pd (file ! 1 @ '' '' @ file ! 2) \<noteq> None
        \<and> (case resolved_freq (take (nat hs) file) frequency of
             None \<Rightarrow> False
           | Some freq \<Rightarrow> pd_to_offset pd freq \<noteq> None)
        \<and> (case start_time of
             Some (DateString s) \<Rightarrow> pd_to_datetime pd s \<noteq> None
           | _ \<Rightarrow> True) \<longrightarrow>
       snd (init pd file hs frequency start_time None) = Inl IndexError)"
proof -
  have data: "snd (load_data (drop (nat hs) file)) = Inr []"
    using assms by (simp add: snd_ret)
  show ?thesis
    using assms data
    by (auto simp: snd_init snd_init_window_series Series_def snd_to_datetime
        split: option.splits sum.splits datetime_like.splits)
qed

text \<open>The sample header alone, read with no option.\<close>

theorem C10_no_data_lines_witness:
  "snd (init sample_pd (sample_file ''1'' ''D123456'' []) 7 None None None) = Inl IndexError"
  using C10_no_data_lines [of "sample_file ''1'' ''D123456'' []" 7 sample_pd None None]
  by (simp add: sample_file_def sample_pd_def NL_def resolved_freq_eq frequency_code_def
      strip_def replace_nl_def isspace_def whitespace_def)

subsection \<open>The series without a window (C4)\<close>



subsection \<open>The window (C5, C6)\<close>

text \<open>
  Claim C5. For a well-formed input, a window start that is read as \<open>s\<close> and a window
  length that is read as \<open>p\<close>, both readings succeed, and the series read with the window
  is the slice from \<open>s\<close> to \<open>s + p\<close>, both included, of the series read without the
  window, which is the full regular series from the start of the header.
\<close>

theorem C5_window_is_slice:
  assumes "well_formed pd file hs frequency data start q"
    and "snd (to_datetime pd S) = Inr s"
    and "pd_Timedelta pd P = Some p"
  shows "\<exists>full r. snd (init pd file hs frequency None None) = Inr full
     \<and> snd (init pd file hs frequency (Some S) (Some P)) = Inr r
     \<and> raw_data r = loc_slice (raw_data full) s (s + p)
     \<and> raw_data full = Series data (map (\<lambda>i. start + int i * q) [0..<length data])"
proof -
  from init_unwindowed [OF assms(1)] obtain full where
    full: "snd (init pd file hs frequency None None) = Inr full"
      "raw_data full = Series data (map (\<lambda>i. start + int i * q) [0..<length data])"
    by blast
  have "case Some P of None \<Rightarrow> s + p = start + (int (length data) - 1) * q
      | Some P \<Rightarrow> (case pd_Timedelta pd P of None \<Rightarrow> False | Some p' \<Rightarrow> s + p = s + p')"
    using assms(3) by simp
  from init_windowed [OF assms(1,2) this] obtain r where
    "snd (init pd file hs frequency (Some S) (Some P)) = Inr r"
    "raw_data r =
       loc_slice (Series data (map (\<lambda>i. start + int i * q) [0..<length data])) s (s + p)"
    by blast
  with full show ?thesis by auto
qed

text \<open>
  The scenario of the specification with a window of twenty seconds from ten seconds after
  the start: the second and the third sample.
\<close>

theorem C5_window_is_slice_witness:
  "\<exists>full r.
     snd (init sample_pd (sample_file ''1'' ''D123456'' sample_lines) 7 None None None) = Inr full
     \<and> snd (init sample_pd (sample_file ''1'' ''D123456'' sample_lines) 7 None
            (Some (Timestamp 1609488010)) (Some ''20s'')) = Inr r
     \<and> raw_data r = loc_slice (raw_data full) 1609488010 (1609488010 + 20)
     \<and> raw_data r = [(1609488015, 20), (1609488030, 5)]"
proof -
  have s: "snd (to_datetime sample_pd (Timestamp 1609488010)) = Inr 1609488010"
    by (simp add: snd_to_datetime)
  have p: "pd_Timedelta sample_pd ''20s'' = Some 20"
    by (simp add: sample_pd_def)
  have "loc_slice [(1609488000, 10), (1609488015, 20), (1609488030, 5), (1609488045, 0)]
      1609488010 (1609488010 + 20) = [(1609488015, 20), (1609488030, 5)]"
    by code_simp
  with C5_window_is_slice [OF sample_well_formed s p] sample_index show ?thesis
    by auto
qed

text \<open>
  Claim C6, as the specification states it, fails for a window start before the series:
  the sample file read with a window start a thousand seconds before its first timestamp,
  and no window length, gives all four samples, not an empty series.
\<close>

theorem C6_window_start_counterexample:
  "(case snd (init sample_pd (sample_file ''1'' ''D123456'' sample_lines) 7 None None None) of
      Inr full \<Rightarrow>
        map fst (raw_data full) = [1609488000, 1609488015, 1609488030, 1609488045]
    | Inl e \<Rightarrow> False)
   \<and> (1609487000 :: int) < 1609488000
   \<and> (case snd (init sample_pd (sample_file ''1'' ''D123456'' sample_lines) 7 None
                (Some (Timestamp 1609487000)) None) of
        Inr r \<Rightarrow>
          raw_data r = [(1609488000, 10), (1609488015, 20), (1609488030, 5), (1609488045, 0)]
      | Inl e \<Rightarrow> False)"
  by code_simp

text \<open>
  Claim C6, amended. For a well-formed input, a window start that is read as \<open>s\<close> and a
  window length that is read, if there is one: when \<open>s\<close> is after the last timestamp of
  the full series, the reading succeeds with an empty series; when \<open>s\<close> is not after the
  start of the header and there is no window length, the reading succeeds with the full
  series.
\<close>

theorem C6_window_after_series:
  assumes "well_formed pd file hs frequency data start q"
    and "snd (to_datetime pd S) = Inr s"
    and "case period of None \<Rightarrow> True | Some P \<Rightarrow> pd_Timedelta pd P \<noteq> None"
  shows "(start + (int (length data) - 1) * q < s \<longrightarrow>
           (\<exists>r. snd (init pd file hs frequency (Some S) period) = Inr r \<and> raw_data r = []))
     \<and> (s \<le> start \<and> period = None \<longrightarrow>
           (\<exists>r. snd (init pd file hs frequency (Some S) period) = Inr r
              \<and> raw_data r = Series data (map (\<lambda>i. start + int i * q) [0..<length data])
              \<and> raw_data r \<noteq> []))"
proof -
  let ?ix = "Series data (map (\<lambda>i. start + int i * q) [0..<length data])"
  from assms(1) have q: "0 \<le> q" and ne: "data \<noteq> []"
    by (auto simp: well_formed_def split: option.splits)
  obtain stop where stop:
    "case period of None \<Rightarrow> stop = start + (int (length data) - 1) * q
     | Some P \<Rightarrow> (case pd_Timedelta pd P of None \<Rightarrow> False | Some p \<Rightarrow> stop = s + p)"
    using assms(3) by (cases period) auto
  from init_windowed [OF assms(1,2) stop] obtain r where
    r: "snd (init pd file hs frequency (Some S) period) = Inr r"
      "raw_data r = loc_slice ?ix s stop" by blast
  have after: "start + (int (length data) - 1) * q < s \<Longrightarrow> raw_data r = []"
    using r(2) loc_slice_after [OF q] by simp
  have before: "s \<le> start \<Longrightarrow> period = None \<Longrightarrow> raw_data r = ?ix"
  proof -
    assume a: "s \<le> start" "period = None"
    then have st: "stop = start + (int (length data) - 1) * q" using stop by simp
    have "\<forall>x\<in>set ?ix. case x of (t, v) \<Rightarrow> s \<le> t \<and> t \<le> stop"
      using index_bounds [OF q, of _ _ data start] a(1) st by fastforce
    then show "raw_data r = ?ix"
      unfolding r(2) loc_slice_def by (intro filter_True) auto
  qed
  have "?ix \<noteq> []" using ne Series_index(1) [of data "\<lambda>i. start + int i * q"] by auto
  with r(1) after before show ?thesis by auto
qed

text \<open>
  The sample file with a window start after its last timestamp, without and with a window
  length.
\<close>

theorem C6_window_after_series_witness:
  "(\<exists>r. snd (init sample_pd (sample_file ''1'' ''D123456'' sample_lines) 7 None
            (Some (Timestamp 1609489000)) None) = Inr r \<and> raw_data r = [])
   \<and> (\<exists>r. snd (init sample_pd (sample_file ''1'' ''D123456'' sample_lines) 7 None
            (Some (Timestamp 1609489000)) (Some ''20s'')) = Inr r \<and> raw_data r = [])"
proof -
  have s: "snd (to_datetime sample_pd (Timestamp 1609489000)) = Inr 1609489000"
    by (simp add: snd_to_datetime)
  have p1: "case None :: string option of None \<Rightarrow> True
      | Some P \<Rightarrow> pd_Timedelta sample_pd P \<noteq> None"
    by simp
  have p2: "case Some ''20s'' of None \<Rightarrow> True | Some P \<Rightarrow> pd_Timedelta sample_pd P \<noteq> None"
    by (simp add: sample_pd_def)
  show ?thesis
    using C6_window_after_series [OF sample_well_formed s p1]
      C6_window_after_series [OF sample_well_formed s p2]
    by simp
qed

subsection \<open>A frequency code that the table does not have (C3)\<close>

text \<open>
  Claim C3. Let the header be complete and its frequency code be absent from the table.
  With no \<^verbatim>\<open>frequency\<close> of the caller, the reading returns no record, and its error is
  the \<^verbatim>\<open>ValueError\<close> of the missing frequency once the data lines and the start are read.
  With a \<^verbatim>\<open>frequency\<close> of the caller, the reading never fails with that error, the
  message of the unresolved code is printed once the data lines are read, a record that is
  returned has this frequency as its sampling period and a series on the regular index of
  this frequency, and for a well-formed input the reading with no window succeeds with the
  full series.
\<close>

theorem C3_missing_frequency:
  assumes "6 \<le> hs" "nat hs \<le> length file"
    and "strip (replace_nl (file ! 3)) \<notin> set (map fst frequency_code)"
  shows "(\<exists>e. snd (init pd file hs None start_time period) = Inl e)
    \<and> (snd (load_data (drop (nat hs) file)) = Inr data
        \<and> pd_to_datetime pd (file ! 1 @ '' '' @ file ! 2) = Some start \<longrightarrow>
       snd (init pd file hs None start_time period) = Inl ValueError_frequency)
    \<and> snd (init pd file hs (Some fr) start_time period) \<noteq> Inl ValueError_frequency
    \<and> (snd (load_data (drop (nat hs) file)) = Inr data \<longrightarrow>
       Print ''Could not find acquisition frequency in header info.''
         \<in> set (fst (init pd file hs (Some fr) start_time period)))
    \<and> (\<forall>r. snd (load_data (drop (nat hs) file)) = Inr data
           \<and> pd_to_datetime pd (file ! 1 @ '' '' @ file ! 2) = Some start
           \<and> snd (init pd file hs (Some fr) start_time period) = Inr r \<longrightarrow>
         pd_Timedelta pd fr = Some (raw_frequency r)
         \<and> (\<exists>q. pd_to_offset pd fr = Some q
              \<and> raw_data r =
                  loc_slice (Series data (map (\<lambda>i. start + int i * q) [0..<length data]))
                    (raw_start_time r) (raw_start_time r + raw_period r)))
    \<and> (well_formed pd file hs (Some fr) data start q \<longrightarrow>
         pd_to_offset pd fr = Some q
         \<and> (\<exists>r. snd (init pd file hs (Some fr) None None) = Inr r
              \<and> raw_data r = Series data (map (\<lambda>i. start + int i * q) [0..<length data])))"
proof -
  have none: "map_of frequency_code (strip (replace_nl (file ! 3))) = None"
    using assms(3) by (simp add: map_of_eq_None_iff)
  have len: "3 < length (take (nat hs) file)" and nth: "take (nat hs) file ! 3 = file ! 3"
    using assms(1,2) by simp_all
  have rf: "\<And>frequency. resolved_freq (take (nat hs) file) frequency = frequency"
    using resolved_freq_eq [OF len] none nth by simp
  have hs: "\<not> length file < nat hs" "\<not> nat hs < 6" "3 < nat hs"
    using assms(1,2) by simp_all
  have a: "\<exists>e. snd (init pd file hs None start_time period) = Inl e"
    using hs by (simp add: snd_init rf split: sum.splits option.splits)
  have b: "snd (load_data (drop (nat hs) file)) = Inr data
        \<and> pd_to_datetime pd (file ! 1 @ '' '' @ file ! 2) = Some start \<longrightarrow>
       snd (init pd file hs None start_time period) = Inl ValueError_frequency"
    using hs by (simp add: snd_init rf)
  have ld: "snd (load_data (drop (nat hs) file)) \<noteq> Inl ValueError_frequency"
    by (simp add: snd_load_data)
  have c: "snd (init pd file hs (Some fr) start_time period) \<noteq> Inl ValueError_frequency"
    using hs ld
    by (auto simp: snd_init rf snd_init_window_series snd_to_datetime
        split: sum.splits option.splits prod.splits datetime_like.splits)
  have d: "snd (load_data (drop (nat hs) file)) = Inr data \<longrightarrow>
       Print ''Could not find acquisition frequency in header info.''
         \<in> set (fst (init pd file hs (Some fr) start_time period))"
    using init_prints_missing_frequency [OF assms(2) hs(3) _ none] by blast
  have e: "\<forall>r. snd (load_data (drop (nat hs) file)) = Inr data
           \<and> pd_to_datetime pd (file ! 1 @ '' '' @ file ! 2) = Some start
           \<and> snd (init pd file hs (Some fr) start_time period) = Inr r \<longrightarrow>
         pd_Timedelta pd fr = Some (raw_frequency r)
         \<and> (\<exists>q. pd_to_offset pd fr = Some q
              \<and> raw_data r =
                  loc_slice (Series data (map (\<lambda>i. start + int i * q) [0..<length data]))
                    (raw_start_time r) (raw_start_time r + raw_period r))"
    using hs
    by (auto simp: snd_init rf snd_init_window_series
        split: sum.splits option.splits prod.splits if_splits)
  have f: "well_formed pd file hs (Some fr) data start q \<longrightarrow>
         pd_to_offset pd fr = Some q
         \<and> (\<exists>r. snd (init pd file hs (Some fr) None None) = Inr r
              \<and> raw_data r = Series data (map (\<lambda>i. start + int i * q) [0..<length data]))"
  proof
    assume wf: "well_formed pd file hs (Some fr) data start q"
    then have "pd_to_offset pd fr = Some q" by (simp add: well_formed_def rf)
    with init_unwindowed [OF wf] show "pd_to_offset pd fr = Some q
         \<and> (\<exists>r. snd (init pd file hs (Some fr) None None) = Inr r
              \<and> raw_data r = Series data (map (\<lambda>i. start + int i * q) [0..<length data]))"
      by blast
  qed
  from a b c d e f show ?thesis by blast
qed

text \<open>
  The sample file with the code \<^verbatim>\<open>"7"\<close>: the error without a \<^verbatim>\<open>frequency\<close>, and with
  \<^verbatim>\<open>'30s'\<close> the message and the series thirty seconds apart.
\<close>

theorem C3_missing_frequency_witness:
  "snd (init sample_pd (sample_file ''7'' ''D123456'' sample_lines) 7 None None None)
     = Inl ValueError_frequency
   \<and> Print ''Could not find acquisition frequency in header info.''
       \<in> set (fst (init sample_pd (sample_file ''7'' ''D123456'' sample_lines) 7
                     (Some ''30s'') None None))
   \<and> (\<exists>r. snd (init sample_pd (sample_file ''7'' ''D123456'' sample_lines) 7
                (Some ''30s'') None None) = Inr r
        \<and> raw_data r =
            Series [10, 20, 5, 0]
              (map (\<lambda>i. 1609488000 + int i * 30) [0..<length [10, 20, 5, 0 :: int]]))"
proof -
  let ?file = "sample_file ''7'' ''D123456'' sample_lines"
  have 1: "(6::int) \<le> 7" by simp
  have 2: "nat 7 \<le> length ?file" by (simp add: sample_file_def)
  have 3: "strip (replace_nl (?file ! 3)) \<notin> set (map fst frequency_code)"
    by code_simp
  have 4: "snd (load_data (drop (nat 7) ?file)) = Inr [10, 20, 5, 0]"
    by code_simp
  have 5: "pd_to_datetime sample_pd (?file ! 1 @ '' '' @ ?file ! 2) = Some 1609488000"
    by code_simp
  have 6: "well_formed sample_pd ?file 7 (Some ''30s'') [10, 20, 5, 0] 1609488000 30"
    by code_simp
  from C3_missing_frequency [OF 1 2 3, of sample_pd None None "[10, 20, 5, 0]" 1609488000
      "''30s''" 30] 4 5 6
  show ?thesis by blast
qed

end
